theory Spec2Isabelle
  imports
    Main
    "HOL-Library.Char_ord"
    "HOL-Library.List_Lexorder"
    "HOL-Library.Product_Lexorder"
    "HOL-Library.Sublist"
    "HOL-Library.Multiset"
begin

section \<open>Ilocano food matcher: data model\<close>

text \<open>
  The models of \<^verbatim>\<open>backend/models/dish.py\<close>. A Python \<^verbatim>\<open>str\<close> is a \<^typ>\<open>string\<close>
  whose characters are read as code points below 256 (the Latin-1 block of Unicode);
  strings with larger code points are outside this development. \<^verbatim>\<open>Optional[str]\<close> is
  \<^typ>\<open>string option\<close>, Python's unbounded \<^verbatim>\<open>int\<close> is \<^typ>\<open>int\<close>. Fields shared by
  several models are written with their record's name, as in \<open>Dish.name\<close>.
\<close>

record Dish =
  id :: int
  name :: string
  description :: "string option"
  ingredients :: "string list"
  taste :: string
  cooking_method :: string
  dietary_tags :: "string list"
  image :: "string option"
  occasions :: "string list"

record PreferenceIn =
  preferred_taste :: "string option"
  ingredients_preference :: "string list"
  dietary_restrictions :: "string list"
  cooking_method :: "string option"
  occasion :: "string option"

record RecommendationOut =
  id :: int
  name :: string
  image :: "string option"
  reason :: string
  score :: int

section \<open>Python string primitives\<close>

text \<open>
  \<^verbatim>\<open>str.lower\<close>, \<^verbatim>\<open>str.isspace\<close> (which is also what \<^verbatim>\<open>str.strip()\<close> removes and what
  \<^verbatim>\<open>\s\<close> matches in a \<^verbatim>\<open>str\<close> pattern), and the character class \<^verbatim>\<open>[a-z0-9]\<close>, on code
  points below 256.
\<close>

definition lower_char :: "char \<Rightarrow> char" where
  "lower_char c =
     (let n = of_char c :: nat in
      if (65 \<le> n \<and> n \<le> 90) \<or> (192 \<le> n \<and> n \<le> 222 \<and> n \<noteq> 215)
      then char_of (n + 32) else c)"

definition lower :: "string \<Rightarrow> string" where
  "lower s = map lower_char s"

definition is_space :: "char \<Rightarrow> bool" where
  "is_space c =
     (let n = of_char c :: nat in
      (9 \<le> n \<and> n \<le> 13) \<or> (28 \<le> n \<and> n \<le> 32) \<or> n = 133 \<or> n = 160)"

definition is_alnum :: "char \<Rightarrow> bool" where
  "is_alnum c =
     (let n = of_char c :: nat in
      (97 \<le> n \<and> n \<le> 122) \<or> (48 \<le> n \<and> n \<le> 57))"

text \<open>\<^verbatim>\<open>s.strip()\<close>: whitespace removed from the left end, then from the right end.\<close>

definition strip :: "string \<Rightarrow> string" where
  "strip s = rev (dropWhile is_space (rev (dropWhile is_space s)))"

text \<open>\<^verbatim>\<open>s.replace(old, new)\<close> for one-character \<^verbatim>\<open>old\<close> and \<^verbatim>\<open>new\<close>.\<close>

definition replace :: "char \<Rightarrow> char \<Rightarrow> string \<Rightarrow> string" where
  "replace old new s = map (\<lambda>c. if c = old then new else c) s"

text \<open>
  \<^verbatim>\<open>re.sub(r"[^a-z0-9]+", " ", s)\<close>: scanning from the left, every maximal run of
  characters outside \<^verbatim>\<open>[a-z0-9]\<close> is replaced by one space.
\<close>

function sub_non_alnum :: "string \<Rightarrow> string" where
  "sub_non_alnum [] = []"
| "sub_non_alnum (c # cs) =
     (if is_alnum c then c # sub_non_alnum cs
      else CHR '' '' # sub_non_alnum (dropWhile (\<lambda>x. \<not> is_alnum x) cs))"
  by pat_completeness auto
termination
  by (relation "measure length") (auto simp: le_imp_less_Suc length_dropWhile_le)

text \<open>
  \<^verbatim>\<open>re.sub(r"^no\s+", "", s)\<close>: the pattern is anchored at the start of the string, so
  it matches at most once: the letters \<^verbatim>\<open>no\<close> and all the whitespace that follows
  them, when there is at least one.
\<close>

definition sub_leading_no :: "string \<Rightarrow> string" where
  "sub_leading_no s =
     (case s of
        a # b # c # rest \<Rightarrow>
          if a = CHR ''n'' \<and> b = CHR ''o'' \<and> is_space c then dropWhile is_space rest else s
      | _ \<Rightarrow> s)"

text \<open>\<^verbatim>\<open>sep.join(xs)\<close>.\<close>

fun join :: "string \<Rightarrow> string list \<Rightarrow> string" where
  "join sep [] = []"
| "join sep [x] = x"
| "join sep (x # y # ys) = x @ sep @ join sep (y # ys)"

text \<open>\<^verbatim>\<open>xs[:n]\<close>: a negative \<^verbatim>\<open>n\<close> counts from the end of the list.\<close>

definition slice_to :: "int \<Rightarrow> 'a list \<Rightarrow> 'a list" where
  "slice_to n xs =
     (if n < 0 then take (nat (int (length xs) + n)) xs else take (nat n) xs)"

text \<open>
  \<^verbatim>\<open>xs.sort(key=key, reverse=True)\<close>: a stable sort into descending order of the keys,
  elements with equal keys staying in their original order. That is the stable ascending
  sort of the reversed list, reversed. \<^const>\<open>sort_key\<close> is the stable insertion sort.
\<close>

definition sort_reverse :: "('a \<Rightarrow> 'k::linorder) \<Rightarrow> 'a list \<Rightarrow> 'a list" where
  "sort_reverse key xs = rev (sort_key key (rev xs))"

text \<open>\<^verbatim>\<open>x or ""\<close> for an optional string.\<close>

definition or_empty :: "string option \<Rightarrow> string" where
  "or_empty x = (case x of None \<Rightarrow> [] | Some s \<Rightarrow> s)"

text \<open>How an f-string prints an optional string: \<^verbatim>\<open>None\<close> prints as its name.\<close>

definition format_optional :: "string option \<Rightarrow> string" where
  "format_optional x = (case x of None \<Rightarrow> ''None'' | Some s \<Rightarrow> s)"

section \<open>The matcher (\<^verbatim>\<open>backend/services/matcher.py\<close>)\<close>

definition normalize_token :: "string \<Rightarrow> string" where
  "normalize_token s = strip (sub_non_alnum (lower s))"

definition parse_restriction_token :: "string \<Rightarrow> string" where
  "parse_restriction_token restr =
     (let s = lower restr;
          s = replace (CHR ''-'') (CHR '' '') (replace (CHR ''_'') (CHR '' '') s);
          s = strip s;
          s = sub_leading_no s;
          s = strip s;
          s = normalize_token s
      in s)"

text \<open>
  The body of the loop over the dishes threads the running \<^verbatim>\<open>score\<close> and the list
  \<^verbatim>\<open>reasons\<close> through the five rules, in the order of the source. Each rule is a
  function on that pair.
\<close>

type_synonym tally = "int \<times> string list"

definition taste_rule :: "string \<Rightarrow> string \<Rightarrow> Dish \<Rightarrow> tally \<Rightarrow> tally" where
  "taste_rule pref_taste dish_taste dish = (\<lambda>(score, reasons).
     if pref_taste \<noteq> [] then
       if pref_taste = dish_taste
       then (score + 3, reasons @ [''Matches taste: '' @ Dish.taste dish @ '' (+3)''])
       else (score, reasons)
     else (score, reasons))"

definition ingredient_rule :: "string list \<Rightarrow> string list \<Rightarrow> tally \<Rightarrow> tally" where
  "ingredient_rule pref_ingredients dish_ingredients = (\<lambda>(score, reasons).
     let ingredient_matches = set pref_ingredients \<inter> set dish_ingredients in
     if ingredient_matches \<noteq> {} then
       let matches_str = join '', '' (sorted_list_of_set ingredient_matches)
       in (score + 3, reasons @ [''Contains preferred ingredient(s): '' @ matches_str @ '' (+3)''])
     else (score, reasons))"

text \<open>
  The loop over the restriction tokens: \<open>restriction_step\<close> is its body (\<^verbatim>\<open>continue\<close>
  leaves the pair as it is), \<open>restriction_rule\<close> runs it over the tokens from the left.
\<close>

definition restriction_step :: "string \<Rightarrow> string list \<Rightarrow> string list \<Rightarrow> tally \<Rightarrow> tally" where
  "restriction_step rt dish_ingredients dish_tags = (\<lambda>(score, reasons).
     if rt = [] then (score, reasons)
     else if rt \<in> set dish_ingredients \<or> rt \<in> set dish_tags
     then (score - 5, reasons @ [''Contains restricted item: '' @ rt @ '' (-5)''])
     else (score, reasons))"

fun restriction_rule :: "string list \<Rightarrow> string list \<Rightarrow> string list \<Rightarrow> tally \<Rightarrow> tally" where
  "restriction_rule [] dish_ingredients dish_tags t = t"
| "restriction_rule (rt # rts) dish_ingredients dish_tags t =
     restriction_rule rts dish_ingredients dish_tags
       (restriction_step rt dish_ingredients dish_tags t)"

definition cooking_rule :: "string \<Rightarrow> string \<Rightarrow> Dish \<Rightarrow> tally \<Rightarrow> tally" where
  "cooking_rule pref_cooking dish_cooking dish = (\<lambda>(score, reasons).
     if pref_cooking \<noteq> [] then
       if pref_cooking = dish_cooking
       then (score + 2,
             reasons @ [''Cooking method matches: '' @ Dish.cooking_method dish @ '' (+2)''])
       else (score, reasons)
     else (score, reasons))"

definition occasion_rule :: "string \<Rightarrow> string list \<Rightarrow> PreferenceIn \<Rightarrow> tally \<Rightarrow> tally" where
  "occasion_rule pref_occasion dish_occasions prefs = (\<lambda>(score, reasons).
     if pref_occasion \<noteq> [] then
       if pref_occasion \<in> set dish_occasions
       then (score + 1,
             reasons @ [''Suitable for: '' @ format_optional (occasion prefs) @ '' (+1)''])
       else (score, reasons)
     else (score, reasons))"

text \<open>
  The score and the reasons of one dish after the five rules, before the fallback
  reason is added: the state of the loop body at line 108 of the source.
\<close>

definition tally_dish ::
  "PreferenceIn \<Rightarrow> string \<Rightarrow> string list \<Rightarrow> string \<Rightarrow> string \<Rightarrow> string list \<Rightarrow> Dish \<Rightarrow> tally"
where
  "tally_dish prefs pref_taste pref_ingredients pref_cooking pref_occasion restriction_tokens dish =
     (let dish_taste = normalize_token (Dish.taste dish);
          dish_ingredients = map normalize_token (ingredients dish);
          dish_cooking = normalize_token (Dish.cooking_method dish);
          dish_tags = map normalize_token (dietary_tags dish);
          dish_occasions = map normalize_token (occasions dish);
          t = (0, []);
          t = taste_rule pref_taste dish_taste dish t;
          t = ingredient_rule pref_ingredients dish_ingredients t;
          t = restriction_rule restriction_tokens dish_ingredients dish_tags t;
          t = cooking_rule pref_cooking dish_cooking dish t;
          t = occasion_rule pref_occasion dish_occasions prefs t
      in t)"

definition fallback_reason :: string where
  "fallback_reason = ''No strong positive matches; showing as lower-scoring suggestion''"

text \<open>One iteration of the loop: the recommendation appended to \<^verbatim>\<open>results\<close>.\<close>

definition score_dish ::
  "PreferenceIn \<Rightarrow> string \<Rightarrow> string list \<Rightarrow> string \<Rightarrow> string \<Rightarrow> string list \<Rightarrow> Dish
     \<Rightarrow> RecommendationOut"
where
  "score_dish prefs pref_taste pref_ingredients pref_cooking pref_occasion restriction_tokens dish =
     (let (score, reasons) =
            tally_dish prefs pref_taste pref_ingredients pref_cooking pref_occasion
              restriction_tokens dish;
          reasons = (if reasons = [] then reasons @ [fallback_reason] else reasons);
          reason_text = join ''; '' reasons
      in \<lparr>RecommendationOut.id = Dish.id dish,
          name = Dish.name dish,
          image = Dish.image dish,
          reason = reason_text,
          score = score\<rparr>)"

text \<open>The sort key \<^verbatim>\<open>lambda r: (r.score, r.name)\<close>; tuples compare lexicographically.\<close>

definition sort_key_of :: "RecommendationOut \<Rightarrow> int \<times> string" where
  "sort_key_of r = (score r, RecommendationOut.name r)"

text \<open>
  \<^verbatim>\<open>match_dishes(dishes, prefs, top_n)\<close>. The default \<^verbatim>\<open>top_n = 3\<close> is supplied by the
  caller. Logging is left out.
\<close>

definition match_dishes :: "Dish list \<Rightarrow> PreferenceIn \<Rightarrow> int \<Rightarrow> RecommendationOut list" where
  "match_dishes dishes prefs top_n =
     (let pref_taste = normalize_token (or_empty (preferred_taste prefs));
          pref_ingredients = map normalize_token (ingredients_preference prefs);
          pref_cooking = normalize_token (or_empty (PreferenceIn.cooking_method prefs));
          pref_occasion = normalize_token (or_empty (occasion prefs));
          restriction_tokens =
            map parse_restriction_token (filter (\<lambda>r. r \<noteq> []) (dietary_restrictions prefs));
          results =
            map (score_dish prefs pref_taste pref_ingredients pref_cooking pref_occasion
                   restriction_tokens) dishes;
          results = sort_reverse sort_key_of results;
          top_results = slice_to top_n results
      in top_results)"

section \<open>The endpoints (\<^verbatim>\<open>backend/main.py\<close>)\<close>

text \<open>
  \<^verbatim>\<open>HTTPException(status_code, detail)\<close> is the only exception the endpoints raise.
  \<^verbatim>\<open>app.state.dishes\<close> is passed to each endpoint as its first argument.
\<close>

datatype error = HTTPException int string

fun get_dish :: "Dish list \<Rightarrow> int \<Rightarrow> error + Dish" where
  "get_dish [] dish_id = Inl (HTTPException 404 ''Dish not found'')"
| "get_dish (d # ds) dish_id = (if Dish.id d = dish_id then Inr d else get_dish ds dish_id)"

text \<open>
  One entry of the response of \<^verbatim>\<open>/match\<close>, the dictionary with the keys \<^verbatim>\<open>name\<close>,
  \<^verbatim>\<open>image\<close>, \<^verbatim>\<open>reason\<close> and \<^verbatim>\<open>score\<close>, as the tuple of their values; the response is
  the dictionary with the one key \<^verbatim>\<open>recommendations\<close>.
\<close>

type_synonym recommendation_entry = "string \<times> string option \<times> string \<times> int"

datatype response = Recommendations "recommendation_entry list"

definition format_entry :: "RecommendationOut \<Rightarrow> recommendation_entry" where
  "format_entry r =
     (RecommendationOut.name r, RecommendationOut.image r, reason r, score r)"

definition match_endpoint :: "Dish list \<Rightarrow> PreferenceIn \<Rightarrow> error + response" where
  "match_endpoint dishes preference =
     (if dishes = [] then Inl (HTTPException 500 ''Dish dataset not loaded'')
      else
        let recommendations = match_dishes dishes preference 3;
            resp = Recommendations (map format_entry recommendations)
        in Inr resp)"

section \<open>Derived notions used in the statements\<close>

text \<open>
  The recommendation that \<open>match_dishes\<close> builds for one dish: the loop body under the
  normalized preferences of the request.
\<close>

definition scored :: "PreferenceIn \<Rightarrow> Dish \<Rightarrow> RecommendationOut" where
  "scored prefs dish =
     score_dish prefs
       (normalize_token (or_empty (preferred_taste prefs)))
       (map normalize_token (ingredients_preference prefs))
       (normalize_token (or_empty (PreferenceIn.cooking_method prefs)))
       (normalize_token (or_empty (occasion prefs)))
       (map parse_restriction_token (filter (\<lambda>r. r \<noteq> []) (dietary_restrictions prefs)))
       dish"

text \<open>
  The shape of a normalized token: only characters of \<^verbatim>\<open>[a-z0-9]\<close> and single spaces,
  and no whitespace at either end.
\<close>

definition is_token :: "string \<Rightarrow> bool" where
  "is_token t \<longleftrightarrow>
     (\<forall>c \<in> set t. is_alnum c \<or> c = CHR '' '') \<and> \<not> sublist ''  '' t \<and>
     (t \<noteq> [] \<longrightarrow> \<not> is_space (hd t) \<and> \<not> is_space (last t))"

text \<open>A request with every field empty or absent.\<close>

definition all_empty :: "PreferenceIn \<Rightarrow> bool" where
  "all_empty prefs \<longleftrightarrow>
     or_empty (preferred_taste prefs) = [] \<and>
     ingredients_preference prefs = [] \<and>
     dietary_restrictions prefs = [] \<and>
     or_empty (PreferenceIn.cooking_method prefs) = [] \<and>
     or_empty (occasion prefs) = []"

text \<open>
  The conditions under which the taste, cooking-method and occasion rules add their
  delta: the two nested tests of each rule, on the normalized fields.
\<close>

definition taste_fires :: "PreferenceIn \<Rightarrow> Dish \<Rightarrow> bool" where
  "taste_fires prefs dish \<longleftrightarrow>
     normalize_token (or_empty (preferred_taste prefs)) \<noteq> [] \<and>
     normalize_token (or_empty (preferred_taste prefs)) = normalize_token (Dish.taste dish)"

definition cooking_fires :: "PreferenceIn \<Rightarrow> Dish \<Rightarrow> bool" where
  "cooking_fires prefs dish \<longleftrightarrow>
     normalize_token (or_empty (PreferenceIn.cooking_method prefs)) \<noteq> [] \<and>
     normalize_token (or_empty (PreferenceIn.cooking_method prefs))
       = normalize_token (Dish.cooking_method dish)"

definition occasion_fires :: "PreferenceIn \<Rightarrow> Dish \<Rightarrow> bool" where
  "occasion_fires prefs dish \<longleftrightarrow>
     normalize_token (or_empty (occasion prefs)) \<noteq> [] \<and>
     normalize_token (or_empty (occasion prefs)) \<in> set (map normalize_token (occasions dish))"

subsection \<open>Sample inputs\<close>

definition pinakbet :: Dish where
  "pinakbet =
     \<lparr>Dish.id = 1, name = ''Pinakbet'', description = Some [],
      ingredients = [''vegetables'', ''pork''], taste = ''bitter'',
      cooking_method = ''boiled'', dietary_tags = [''pork''], image = None,
      occasions = [''everyday'']\<rparr>"

definition bagnet :: Dish where
  "bagnet =
     \<lparr>Dish.id = 2, name = ''Bagnet'', description = Some [],
      ingredients = [''pork'', ''garlic''], taste = ''salty'',
      cooking_method = ''fried'', dietary_tags = [''pork''], image = Some ''bagnet.jpg'',
      occasions = [''celebration'']\<rparr>"

definition dinengdeng :: Dish where
  "dinengdeng =
     \<lparr>Dish.id = 3, name = ''Dinengdeng'', description = None,
      ingredients = [''vegetables'', ''bagoong'', ''fish''], taste = ''bitter'',
      cooking_method = ''boiled'', dietary_tags = [''seafood''], image = None,
      occasions = [''everyday'']\<rparr>"

definition sample_catalog :: "Dish list" where
  "sample_catalog = [pinakbet, bagnet, dinengdeng]"

definition empty_request :: PreferenceIn where
  "empty_request =
     \<lparr>preferred_taste = None, ingredients_preference = [], dietary_restrictions = [],
      cooking_method = None, occasion = None\<rparr>"

definition no_pork_request :: PreferenceIn where
  "no_pork_request =
     \<lparr>preferred_taste = Some ''bitter'', ingredients_preference = [],
      dietary_restrictions = [''no-pork''], cooking_method = None, occasion = None\<rparr>"

definition empanada :: Dish where
  "empanada =
     \<lparr>Dish.id = 4, name = ''Empanada'', description = None,
      ingredients = [''rice flour'', ''longganisa'', ''egg'', []], taste = ''savory'',
      cooking_method = ''fried'', dietary_tags = [''pork''], image = None,
      occasions = [''merienda'']\<rparr>"

definition blank_ingredient_request :: PreferenceIn where
  "blank_ingredient_request =
     \<lparr>preferred_taste = None, ingredients_preference = [[]], dietary_restrictions = [],
      cooking_method = None, occasion = None\<rparr>"

definition strict_request :: PreferenceIn where
  "strict_request =
     \<lparr>preferred_taste = None, ingredients_preference = [],
      dietary_restrictions = [''no-pork'', [], ''--'', ''No Garlic'', ''no_seafood'', ''PORK''],
      cooking_method = None, occasion = None\<rparr>"

definition everyday_request :: PreferenceIn where
  "everyday_request =
     \<lparr>preferred_taste = Some ''BITTER'', ingredients_preference = [],
      dietary_restrictions = [], cooking_method = Some ''Boiled'',
      occasion = Some ''Everyday!''\<rparr>"

section \<open>The text normalizer\<close>

lemma space_not_alnum: "\<not> is_alnum (CHR '' '')"
  by (simp add: is_alnum_def)

lemma lower_char_fix: "is_alnum c \<or> c = CHR '' '' \<Longrightarrow> lower_char c = c"
  by (auto simp: is_alnum_def lower_char_def Let_def)

lemma sub_non_alnum_chars: "c \<in> set (sub_non_alnum s) \<Longrightarrow> is_alnum c \<or> c = CHR '' ''"
  by (induction s rule: sub_non_alnum.induct) (auto split: if_splits)

text \<open>What follows a replaced run starts with a character of \<^verbatim>\<open>[a-z0-9]\<close>, or is empty.\<close>

lemma sub_non_alnum_after_run:
  "\<not> prefix [CHR '' ''] (sub_non_alnum (dropWhile (\<lambda>x. \<not> is_alnum x) cs))"
proof -
  define w where "w = dropWhile (\<lambda>x. \<not> is_alnum x) cs"
  have "\<not> prefix [CHR '' ''] (sub_non_alnum w)"
  proof (cases w)
    case Nil
    then show ?thesis by simp
  next
    case (Cons d ds)
    then have "is_alnum (hd w)"
      using hd_dropWhile [of "\<lambda>x. \<not> is_alnum x" cs] unfolding w_def by fastforce
    with Cons show ?thesis
      using space_not_alnum by auto
  qed
  then show ?thesis unfolding w_def .
qed

lemma sub_non_alnum_single_spaces: "\<not> sublist ''  '' (sub_non_alnum s)"
proof (induction s rule: sub_non_alnum.induct)
  case 1
  then show ?case by simp
next
  case (2 c cs)
  show ?case
  proof (cases "is_alnum c")
    case True
    with 2 show ?thesis
      using space_not_alnum by (auto simp: sublist_Cons_right)
  next
    case False
    with 2 show ?thesis
      using sub_non_alnum_after_run [of cs] by (auto simp: sublist_Cons_right)
  qed
qed

lemma strip_sublist: "sublist (strip s) s"
proof -
  have "suffix (dropWhile is_space (rev (dropWhile is_space s))) (rev (dropWhile is_space s))"
    by (rule suffix_dropWhile)
  then have "prefix (strip s) (dropWhile is_space s)"
    by (simp add: strip_def suffix_to_prefix)
  moreover have "suffix (dropWhile is_space s) s"
    by (rule suffix_dropWhile)
  ultimately show ?thesis
    by (meson prefix_imp_sublist suffix_imp_sublist sublist_order.order_trans)
qed

lemma strip_ends:
  assumes "strip s \<noteq> []"
  shows "\<not> is_space (hd (strip s)) \<and> \<not> is_space (last (strip s))"
proof -
  define w where "w = dropWhile is_space s"
  define v where "v = dropWhile is_space (rev w)"
  have sv: "strip s = rev v" by (simp add: strip_def v_def w_def)
  with assms have v: "v \<noteq> []" by simp
  then have "\<not> is_space (hd v)" unfolding v_def by (rule hd_dropWhile)
  then have l: "\<not> is_space (last (strip s))"
    using v by (simp add: sv last_rev)
  have "suffix v (rev w)" unfolding v_def by (rule suffix_dropWhile)
  then have "prefix (rev v) w" by (simp add: suffix_to_prefix)
  with v have w: "w \<noteq> []" and "hd (rev v) = hd w"
    by (auto simp: prefix_def)
  moreover from w have "\<not> is_space (hd w)" unfolding w_def by (rule hd_dropWhile)
  ultimately show ?thesis using l by (simp add: sv)
qed

lemma strip_fix:
  assumes "t \<noteq> [] \<longrightarrow> \<not> is_space (hd t) \<and> \<not> is_space (last t)"
  shows "strip t = t"
proof (cases "t = []")
  case True
  then show ?thesis by (simp add: strip_def)
next
  case False
  with assms have h: "\<not> is_space (hd t)" and "\<not> is_space (last t)" by auto
  with False have "\<not> is_space (hd (rev t))" by (simp add: hd_rev)
  with False h have "dropWhile is_space t = t" "dropWhile is_space (rev t) = rev t"
    by (simp_all add: dropWhile_eq_self_iff)
  then show ?thesis by (simp add: strip_def)
qed

lemma sub_non_alnum_fix:
  "(\<forall>c \<in> set t. is_alnum c \<or> c = CHR '' '') \<Longrightarrow> \<not> sublist ''  '' t \<Longrightarrow> sub_non_alnum t = t"
proof (induction t)
  case Nil
  then show ?case by simp
next
  case (Cons c cs)
  then have ih: "sub_non_alnum cs = cs"
    by (auto simp: sublist_Cons_right)
  show ?case
  proof (cases "is_alnum c")
    case True
    with ih show ?thesis by simp
  next
    case False
    with Cons.prems have c: "c = CHR '' ''" by simp
    have "dropWhile (\<lambda>x. \<not> is_alnum x) cs = cs"
    proof (cases cs)
      case Nil
      then show ?thesis by simp
    next
      case (Cons d ds)
      with Cons.prems c have "d \<noteq> CHR '' ''"
        by (auto simp: sublist_Cons_right)
      with Cons Cons.prems have "is_alnum d" by auto
      with Cons show ?thesis by simp
    qed
    with False ih c show ?thesis by simp
  qed
qed

lemma is_token_normalize_token: "is_token (normalize_token s)"
  unfolding is_token_def normalize_token_def
proof (intro conjI ballI impI)
  fix c assume "c \<in> set (strip (sub_non_alnum (lower s)))"
  then have "c \<in> set (sub_non_alnum (lower s))"
    using strip_sublist [of "sub_non_alnum (lower s)"] set_mono_sublist by blast
  then show "is_alnum c \<or> c = CHR '' ''" by (rule sub_non_alnum_chars)
next
  show "\<not> sublist ''  '' (strip (sub_non_alnum (lower s)))"
    using strip_sublist [of "sub_non_alnum (lower s)"] sub_non_alnum_single_spaces [of "lower s"]
    by (meson sublist_order.order_trans)
next
  assume "strip (sub_non_alnum (lower s)) \<noteq> []"
  then show "\<not> is_space (hd (strip (sub_non_alnum (lower s))))" by (simp add: strip_ends)
next
  assume "strip (sub_non_alnum (lower s)) \<noteq> []"
  then show "\<not> is_space (last (strip (sub_non_alnum (lower s))))" by (simp add: strip_ends)
qed

lemma normalize_token_fix:
  assumes "is_token t"
  shows "normalize_token t = t"
proof -
  from assms have "lower t = t"
    by (simp add: is_token_def lower_def map_idI lower_char_fix)
  moreover from assms have "sub_non_alnum t = t"
    by (simp add: is_token_def sub_non_alnum_fix)
  moreover from assms have "strip t = t"
    by (simp add: is_token_def strip_fix)
  ultimately show ?thesis by (simp add: normalize_token_def)
qed

text \<open>
  C5. \<open>normalize_token\<close> is idempotent: normalizing a normalized token returns it
  unchanged, for every string. Restriction parsing does not depend on case or on the
  style of the separator: \<open>parse_restriction_token\<close> sends \<^verbatim>\<open>"No-Pork"\<close>,
  \<^verbatim>\<open>"no_pork"\<close> and \<^verbatim>\<open>"no pork"\<close> to the token \<^verbatim>\<open>"pork"\<close>.
\<close>

theorem normalize_token_idempotent:
  "normalize_token (normalize_token s) = normalize_token s \<and>
   parse_restriction_token ''No-Pork'' = ''pork'' \<and>
   parse_restriction_token ''no_pork'' = ''pork'' \<and>
   parse_restriction_token ''no pork'' = ''pork''"
proof (intro conjI)
  show "normalize_token (normalize_token s) = normalize_token s"
    by (rule normalize_token_fix) (rule is_token_normalize_token)
  show "parse_restriction_token ''No-Pork'' = ''pork''" by code_simp
  show "parse_restriction_token ''no_pork'' = ''pork''" by code_simp
  show "parse_restriction_token ''no pork'' = ''pork''" by code_simp
qed

section \<open>Ranking and truncation\<close>

lemma match_dishes_unfold:
  "match_dishes dishes prefs top_n =
     slice_to top_n (sort_reverse sort_key_of (map (scored prefs) dishes))"
proof -
  have "scored prefs =
      score_dish prefs
        (normalize_token (or_empty (preferred_taste prefs)))
        (map normalize_token (ingredients_preference prefs))
        (normalize_token (or_empty (PreferenceIn.cooking_method prefs)))
        (normalize_token (or_empty (occasion prefs)))
        (map parse_restriction_token (filter (\<lambda>r. r \<noteq> []) (dietary_restrictions prefs)))"
    by (rule ext) (simp add: scored_def)
  then show ?thesis
    by (simp add: match_dishes_def Let_def)
qed

lemma length_sort_reverse: "length (sort_reverse key xs) = length xs"
  by (simp add: sort_reverse_def)

lemma mset_sort_reverse: "mset (sort_reverse key xs) = mset xs"
  by (simp add: sort_reverse_def)

lemma sort_reverse_descending: "sorted_wrt (\<lambda>a b. key b \<le> key a) (sort_reverse key xs)"
proof -
  have "sorted (map key (sort_key key (rev xs)))" by (rule sorted_sort_key)
  then have "sorted_wrt (\<lambda>a b. key a \<le> key b) (sort_key key (rev xs))"
    by (simp add: sorted_map)
  then show ?thesis
    by (simp add: sort_reverse_def sorted_wrt_rev)
qed

lemma slice_to_take: "\<exists>m. slice_to n xs = take m xs"
  by (auto simp: slice_to_def)

lemma match_dishes_descending:
  "sorted_wrt (\<lambda>a b. sort_key_of b \<le> sort_key_of a) (match_dishes dishes prefs top_n)"
proof -
  obtain m where "match_dishes dishes prefs top_n =
      take m (sort_reverse sort_key_of (map (scored prefs) dishes))"
    using slice_to_take unfolding match_dishes_unfold by blast
  then show ?thesis
    by (simp add: sort_reverse_descending sorted_wrt_take)
qed


lemma length_match_dishes:
  "0 < top_n \<Longrightarrow> int (length (match_dishes dishes prefs top_n)) = min top_n (int (length dishes))"
  by (auto simp: match_dishes_unfold slice_to_def length_sort_reverse min_def)

lemma match_dishes_all:
  "int (length dishes) \<le> top_n \<Longrightarrow>
   match_dishes dishes prefs top_n = sort_reverse sort_key_of (map (scored prefs) dishes)"
  by (simp add: match_dishes_unfold slice_to_def length_sort_reverse)

lemma match_dishes_nonempty:
  "dishes \<noteq> [] \<Longrightarrow> 0 < top_n \<Longrightarrow> match_dishes dishes prefs top_n \<noteq> []"
  using length_match_dishes [of top_n dishes prefs] by (cases dishes) auto

text \<open>
  C3. Whatever the catalog, the request and \<open>top_n\<close> (so in particular for a positive
  \<open>top_n\<close>), the list returned by \<open>match_dishes\<close> is in descending order of score, ties
  broken by name in descending order: for every adjacent pair, the first has the strictly
  greater score, or the scores are equal and the first's name is lexicographically
  greater than or equal to the second's.
\<close>

theorem match_dishes_ranked:
  assumes "Suc i < length (match_dishes dishes prefs top_n)"
  shows "score (match_dishes dishes prefs top_n ! Suc i) < score (match_dishes dishes prefs top_n ! i) \<or>
         (score (match_dishes dishes prefs top_n ! i) = score (match_dishes dishes prefs top_n ! Suc i) \<and>
          RecommendationOut.name (match_dishes dishes prefs top_n ! Suc i)
            \<le> RecommendationOut.name (match_dishes dishes prefs top_n ! i))"
proof -
  have "sort_key_of (match_dishes dishes prefs top_n ! Suc i)
          \<le> sort_key_of (match_dishes dishes prefs top_n ! i)"
    using match_dishes_descending assms
    by (rule sorted_wrt_nth_less [where i = i and j = "Suc i", OF _ lessI])
  then show ?thesis
    by (auto simp: sort_key_of_def less_eq_prod_def)
qed

theorem match_dishes_ranked_witness:
  "Suc 0 < length (match_dishes sample_catalog empty_request 3) \<and>
   (score (match_dishes sample_catalog empty_request 3 ! Suc 0)
      < score (match_dishes sample_catalog empty_request 3 ! 0) \<or>
    (score (match_dishes sample_catalog empty_request 3 ! 0)
       = score (match_dishes sample_catalog empty_request 3 ! Suc 0) \<and>
     RecommendationOut.name (match_dishes sample_catalog empty_request 3 ! Suc 0)
       \<le> RecommendationOut.name (match_dishes sample_catalog empty_request 3 ! 0)))"
proof -
  have h: "Suc 0 < length (match_dishes sample_catalog empty_request 3)"
    by code_simp
  show ?thesis
    using h match_dishes_ranked [OF h] by blast
qed

text \<open>
  C4. For a positive \<open>top_n\<close>, \<open>match_dishes\<close> returns \<open>min(top_n, len(catalog))\<close>
  candidates. When the catalog has no more than \<open>top_n\<close> dishes the candidates of all of
  them are returned (as a multiset, one per dish), and the result is sorted by the key
  \<open>(score, name)\<close> in descending order in every case.
\<close>

theorem match_dishes_top_n:
  assumes "0 < top_n"
  shows "int (length (match_dishes dishes prefs top_n)) = min top_n (int (length dishes)) \<and>
         (int (length dishes) \<le> top_n \<longrightarrow>
            mset (match_dishes dishes prefs top_n) = mset (map (scored prefs) dishes)) \<and>
         sorted_wrt (\<lambda>a b. sort_key_of b \<le> sort_key_of a) (match_dishes dishes prefs top_n)"
  using assms
  by (simp add: length_match_dishes match_dishes_all mset_sort_reverse match_dishes_descending)

theorem match_dishes_top_n_witness:
  "(0::int) < 5 \<and> int (length sample_catalog) \<le> 5 \<and>
   int (length (match_dishes sample_catalog no_pork_request 5)) = 3 \<and>
   mset (match_dishes sample_catalog no_pork_request 5)
     = mset (map (scored no_pork_request) sample_catalog)"
proof -
  have h: "(0::int) < 5" by simp
  have l: "int (length sample_catalog) = 3" by (simp add: sample_catalog_def)
  show ?thesis
    using h l match_dishes_top_n [OF h, of sample_catalog no_pork_request] by simp
qed

section \<open>The scenario of the specification\<close>

text \<open>
  C2. With the catalog holding only Pinakbet (id 1, taste \<^verbatim>\<open>bitter\<close>, ingredients
  \<^verbatim>\<open>vegetables\<close> and \<^verbatim>\<open>pork\<close>, cooking method \<^verbatim>\<open>boiled\<close>, dietary tag \<^verbatim>\<open>pork\<close>, occasion
  \<^verbatim>\<open>everyday\<close>) and the request for taste \<^verbatim>\<open>bitter\<close> with the restriction \<^verbatim>\<open>no-pork\<close>,
  \<open>match_dishes\<close> returns, for every positive \<open>top_n\<close> (the default 3 among them), one
  candidate, of score \<open>-2\<close>, whose reason contains \<^verbatim>\<open>Matches taste: bitter (+3)\<close> and
  \<^verbatim>\<open>Contains restricted item: pork (-5)\<close>.
\<close>

theorem match_dishes_pinakbet:
  assumes "0 < top_n"
  shows "\<exists>r. match_dishes [pinakbet] no_pork_request top_n = [r] \<and>
             score r = - 2 \<and>
             reason r = ''Matches taste: bitter (+3); Contains restricted item: pork (-5)'' \<and>
             sublist ''Matches taste: bitter (+3)'' (reason r) \<and>
             sublist ''Contains restricted item: pork (-5)'' (reason r)"
proof -
  define r where "r =
     \<lparr>RecommendationOut.id = 1, name = ''Pinakbet'', image = None,
      reason = ''Matches taste: bitter (+3); Contains restricted item: pork (-5)'',
      score = - 2\<rparr>"
  have "sort_reverse sort_key_of (map (scored no_pork_request) [pinakbet]) = [r]"
    unfolding r_def by code_simp
  with assms have "match_dishes [pinakbet] no_pork_request top_n = [r]"
    by (simp add: match_dishes_unfold slice_to_def)
  moreover have "score r = - 2"
    by (simp add: r_def)
  moreover have "reason r = ''Matches taste: bitter (+3); Contains restricted item: pork (-5)''"
    by (simp add: r_def)
  moreover have "sublist ''Matches taste: bitter (+3)'' (reason r)"
  proof -
    have "reason r = ''Matches taste: bitter (+3)'' @ ''; Contains restricted item: pork (-5)''"
      by (simp add: r_def)
    then show ?thesis
      by (metis prefixI prefix_imp_sublist)
  qed
  moreover have "sublist ''Contains restricted item: pork (-5)'' (reason r)"
  proof -
    have "reason r = ''Matches taste: bitter (+3); '' @ ''Contains restricted item: pork (-5)''"
      by (simp add: r_def)
    then show ?thesis
      by (metis suffixI suffix_imp_sublist)
  qed
  ultimately show ?thesis by blast
qed

theorem match_dishes_pinakbet_witness:
  "(0::int) < 3 \<and>
   (\<exists>r. match_dishes [pinakbet] no_pork_request 3 = [r] \<and>
        score r = - 2 \<and>
        reason r = ''Matches taste: bitter (+3); Contains restricted item: pork (-5)'' \<and>
        sublist ''Matches taste: bitter (+3)'' (reason r) \<and>
        sublist ''Contains restricted item: pork (-5)'' (reason r))"
proof -
  have h: "(0::int) < 3" by simp
  show ?thesis
    using h match_dishes_pinakbet [OF h] by blast
qed

section \<open>The endpoints\<close>

text \<open>
  C1. Whatever the request, the match endpoint on an empty catalog fails with the
  dataset-unavailable error (\<open>HTTPException 500\<close>), an error value that differs from
  every success; it never succeeds with an empty list of recommendations; and on a
  non-empty catalog it succeeds with the formatted result of \<open>match_dishes\<close>, which is
  therefore only run on a non-empty catalog.
\<close>

theorem match_endpoint_dataset_unavailable:
  "match_endpoint [] preference = Inl (HTTPException 500 ''Dish dataset not loaded'') \<and>
   match_endpoint dishes preference \<noteq> Inr (Recommendations []) \<and>
   (dishes \<noteq> [] \<longrightarrow>
      match_endpoint dishes preference
        = Inr (Recommendations (map format_entry (match_dishes dishes preference 3))))"
  using match_dishes_nonempty [of dishes 3 preference]
  by (simp add: match_endpoint_def Let_def)

theorem match_endpoint_dataset_unavailable_witness:
  "match_endpoint [] no_pork_request = Inl (HTTPException 500 ''Dish dataset not loaded'') \<and>
   [pinakbet] \<noteq> [] \<and>
   match_endpoint [pinakbet] no_pork_request
     = Inr (Recommendations
         [(''Pinakbet'', None,
           ''Matches taste: bitter (+3); Contains restricted item: pork (-5)'', - 2)])"
proof -
  have v: "map format_entry (match_dishes [pinakbet] no_pork_request 3)
      = [(''Pinakbet'', None,
          ''Matches taste: bitter (+3); Contains restricted item: pork (-5)'', - 2)]"
    by code_simp
  show ?thesis
    using match_endpoint_dataset_unavailable [of no_pork_request "[pinakbet]"] v by simp
qed

lemma match_dishes_empty_catalog: "match_dishes [] prefs top_n = []"
  by (simp add: match_dishes_unfold slice_to_def sort_reverse_def)

lemma get_dish_found:
  "d \<in> set dishes \<Longrightarrow> \<exists>e \<in> set dishes. Dish.id e = Dish.id d \<and> get_dish dishes (Dish.id d) = Inr e"
  by (induction dishes) auto

lemma get_dish_not_found:
  "\<forall>d \<in> set dishes. Dish.id d \<noteq> dish_id \<Longrightarrow>
   get_dish dishes dish_id = Inl (HTTPException 404 ''Dish not found'')"
  by (induction dishes) auto

lemma get_dish_unique:
  "distinct (map Dish.id dishes) \<Longrightarrow> d \<in> set dishes \<Longrightarrow> get_dish dishes (Dish.id d) = Inr d"
  by (induction dishes) auto

text \<open>
  C9. For every integer \<open>dish_id\<close>: when some dish of the catalog has that id,
  \<open>get_dish\<close> returns a dish of the catalog with that id (the dish itself when the ids
  of the catalog are distinct); when none has, it fails with the not-found error
  (\<open>HTTPException 404\<close>), which is no success value.
\<close>

theorem get_dish_by_id:
  "((\<exists>d \<in> set dishes. Dish.id d = dish_id) \<longrightarrow>
      (\<exists>d \<in> set dishes. Dish.id d = dish_id \<and> get_dish dishes dish_id = Inr d)) \<and>
   (distinct (map Dish.id dishes) \<longrightarrow>
      (\<forall>d \<in> set dishes. get_dish dishes (Dish.id d) = Inr d)) \<and>
   ((\<forall>d \<in> set dishes. Dish.id d \<noteq> dish_id) \<longrightarrow>
      get_dish dishes dish_id = Inl (HTTPException 404 ''Dish not found''))"
  using get_dish_found [of _ dishes] get_dish_not_found [of dishes dish_id]
    get_dish_unique [of dishes]
  by blast

theorem get_dish_by_id_witness:
  "get_dish sample_catalog 2 = Inr bagnet \<and>
   get_dish sample_catalog 7 = Inl (HTTPException 404 ''Dish not found'')"
proof -
  have d: "distinct (map Dish.id sample_catalog)"
    by (simp add: sample_catalog_def pinakbet_def bagnet_def dinengdeng_def)
  have m: "bagnet \<in> set sample_catalog" by (simp add: sample_catalog_def)
  have i: "Dish.id bagnet = 2" by (simp add: bagnet_def)
  have n: "\<forall>d \<in> set sample_catalog. Dish.id d \<noteq> 7"
    by (simp add: sample_catalog_def pinakbet_def bagnet_def dinengdeng_def)
  show ?thesis
    using get_dish_by_id [of sample_catalog 7] get_dish_by_id [of sample_catalog 2] d m i n
    by fastforce
qed


section \<open>The scoring rules\<close>

lemma restriction_rule_filter:
  "restriction_rule tokens di dt (sc, rs) =
     (sc - 5 * int (length (filter (\<lambda>rt. rt \<noteq> [] \<and> (rt \<in> set di \<or> rt \<in> set dt)) tokens)),
      rs @ map (\<lambda>rt. ''Contains restricted item: '' @ rt @ '' (-5)'')
             (filter (\<lambda>rt. rt \<noteq> [] \<and> (rt \<in> set di \<or> rt \<in> set dt)) tokens))"
  by (induction tokens arbitrary: sc rs) (auto simp: restriction_step_def)

text \<open>
  C6. For every dish and request, the restrictions rule, run on the parsed restriction
  tokens of the request and the normalized ingredients and dietary tags of the dish,
  subtracts 5 once for each entry of the token list that is non-empty and occurs among
  the ingredients or the tags, and appends the fragment
  \<^verbatim>\<open>Contains restricted item: <token> (-5)\<close> for each such entry, in the order of the
  list (so a token that occurs twice is penalised twice); entries that are empty or
  occur in neither list change neither the score nor the reasons.
\<close>

theorem restriction_rule_penalty:
  "let restriction_tokens =
         map parse_restriction_token (filter (\<lambda>r. r \<noteq> []) (dietary_restrictions prefs));
       dish_ingredients = map normalize_token (ingredients dish);
       dish_tags = map normalize_token (dietary_tags dish);
       hits = filter (\<lambda>rt. rt \<noteq> [] \<and> (rt \<in> set dish_ingredients \<or> rt \<in> set dish_tags))
                restriction_tokens
   in restriction_rule restriction_tokens dish_ingredients dish_tags (sc, rs) =
        (sc - 5 * int (length hits),
         rs @ map (\<lambda>rt. ''Contains restricted item: '' @ rt @ '' (-5)'') hits)"
  by (simp add: Let_def restriction_rule_filter)

theorem restriction_rule_penalty_witness:
  "restriction_rule
     (map parse_restriction_token (filter (\<lambda>r. r \<noteq> []) (dietary_restrictions strict_request)))
     (map normalize_token (ingredients bagnet))
     (map normalize_token (dietary_tags bagnet)) (0, []) =
   (- 15, [''Contains restricted item: pork (-5)'', ''Contains restricted item: garlic (-5)'',
           ''Contains restricted item: pork (-5)''])"
proof -
  have t: "map parse_restriction_token (filter (\<lambda>r. r \<noteq> []) (dietary_restrictions strict_request))
             = [''pork'', [], ''garlic'', ''seafood'', ''pork'']"
    by code_simp
  have i: "map normalize_token (ingredients bagnet) = [''pork'', ''garlic'']"
    by code_simp
  have g: "map normalize_token (dietary_tags bagnet) = [''pork'']"
    by code_simp
  show ?thesis
    using restriction_rule_penalty [of strict_request bagnet 0 "[]"]
    unfolding t i g Let_def by simp
qed

text \<open>
  C7. The ingredient rule has no test for an empty token, unlike the other four rules.
  A preferred ingredient that normalizes to the empty string meets a dish ingredient
  that normalizes to the empty string: the intersection is the non-empty set holding the
  empty string, and the dish receives \<open>+3\<close> with a fragment that names no ingredient.
\<close>

theorem ingredient_rule_blank_match:
  "map normalize_token (ingredients_preference blank_ingredient_request) = [[]] \<and>
   match_dishes [empanada] blank_ingredient_request 3 =
     [\<lparr>RecommendationOut.id = 4, name = ''Empanada'', image = None,
       reason = ''Contains preferred ingredient(s):  (+3)'', score = 3\<rparr>]"
  by code_simp

section \<open>Reasons and their fragments\<close>

lemma join_Cons: "ys \<noteq> [] \<Longrightarrow> join sep (a # ys) = a @ sep @ join sep ys"
  by (cases ys) auto

lemma join_snoc_suffix: "suffix x (join sep (xs @ [x]))"
  by (induction xs) (auto simp: join_Cons suffix_append)

lemma join_Cons_prefix: "prefix x (join sep (x # xs))"
  by (cases xs) auto

lemma join_member_sublist: "x \<in> set xs \<Longrightarrow> sublist x (join sep xs)"
proof (induction xs)
  case Nil
  then show ?case by simp
next
  case (Cons a xs)
  show ?case
  proof (cases "xs = []")
    case True
    with Cons.prems show ?thesis by simp
  next
    case False
    then have j: "join sep (a # xs) = a @ sep @ join sep xs" by (rule join_Cons)
    show ?thesis
    proof (cases "x = a")
      case True
      then show ?thesis unfolding j by simp
    next
      case False
      with Cons have "sublist x (join sep xs)" by simp
      moreover have "sublist (join sep xs) ((a @ sep) @ join sep xs)"
        by (rule sublist_append_leftI)
      ultimately have "sublist x ((a @ sep) @ join sep xs)"
        by (rule sublist_order.order_trans)
      then show ?thesis unfolding j by simp
    qed
  qed
qed

section \<open>The request with no preference\<close>

lemma normalize_token_Nil: "normalize_token [] = []"
  by (simp add: normalize_token_def lower_def strip_def)

lemma insort_key_cong_on:
  "\<forall>y \<in> set ys. (f x \<le> f y) = (g x \<le> g y) \<Longrightarrow> insort_key f x ys = insort_key g x ys"
  by (induction ys) auto

lemma sort_key_cong_on:
  "\<forall>x \<in> set xs. \<forall>y \<in> set xs. (f x \<le> f y) = (g x \<le> g y) \<Longrightarrow> sort_key f xs = sort_key g xs"
proof (induction xs)
  case Nil
  then show ?case by simp
next
  case (Cons x xs)
  then have "sort_key f xs = sort_key g xs" by simp
  moreover have "insort_key f x (sort_key g xs) = insort_key g x (sort_key g xs)"
    using Cons.prems by (intro insort_key_cong_on) simp
  ultimately show ?case by (simp add: sort_key_def)
qed

lemma tally_dish_all_empty: "tally_dish prefs [] [] [] [] [] dish = (0, [])"
  by (simp add: tally_dish_def Let_def taste_rule_def ingredient_rule_def cooking_rule_def
      occasion_rule_def)

lemma scored_all_empty:
  assumes "all_empty prefs"
  shows "scored prefs dish =
           \<lparr>RecommendationOut.id = Dish.id dish, name = Dish.name dish, image = Dish.image dish,
            reason = fallback_reason, score = 0\<rparr>"
  using assms
  by (simp add: all_empty_def scored_def score_dish_def normalize_token_Nil tally_dish_all_empty)

lemma set_match_dishes: "set (match_dishes dishes prefs top_n) \<subseteq> scored prefs ` set dishes"
proof -
  obtain m where "match_dishes dishes prefs top_n =
      take m (sort_reverse sort_key_of (map (scored prefs) dishes))"
    using slice_to_take unfolding match_dishes_unfold by blast
  then have "set (match_dishes dishes prefs top_n)
      \<subseteq> set (sort_reverse sort_key_of (map (scored prefs) dishes))"
    by (simp add: set_take_subset)
  then show ?thesis by (simp add: sort_reverse_def)
qed

lemma sort_reverse_equal_scores:
  assumes "\<forall>r \<in> set xs. score r = c"
  shows "sort_reverse sort_key_of xs = sort_reverse RecommendationOut.name xs"
proof -
  have "sort_key sort_key_of (rev xs) = sort_key RecommendationOut.name (rev xs)"
    using assms by (intro sort_key_cong_on) (simp add: sort_key_of_def)
  then show ?thesis by (simp add: sort_reverse_def)
qed

text \<open>
  C8, as the code has it. For every non-empty catalog and every request whose fields
  are all empty or absent, each candidate returned has score 0 and the reason
  \<^verbatim>\<open>No strong positive matches; showing as lower-scoring suggestion\<close> (the fallback
  string of the source ends without a full stop); the result is the stable descending
  sort of the candidates by name alone, cut to \<open>top_n\<close>, hence in descending order of
  name; and it is not empty when \<open>top_n\<close> is positive.
\<close>

theorem match_dishes_all_empty:
  assumes "all_empty prefs" and "dishes \<noteq> []"
  shows "(\<forall>r \<in> set (match_dishes dishes prefs top_n).
            score r = 0 \<and>
            reason r = ''No strong positive matches; showing as lower-scoring suggestion'') \<and>
         match_dishes dishes prefs top_n =
           slice_to top_n (sort_reverse RecommendationOut.name (map (scored prefs) dishes)) \<and>
         sorted_wrt (\<lambda>a b. RecommendationOut.name b \<le> RecommendationOut.name a)
           (match_dishes dishes prefs top_n) \<and>
         (0 < top_n \<longrightarrow> match_dishes dishes prefs top_n \<noteq> [])"
proof (intro conjI ballI impI)
  fix r assume "r \<in> set (match_dishes dishes prefs top_n)"
  then obtain d where "r = scored prefs d"
    using set_match_dishes by blast
  with assms(1) show "score r = 0"
    and "reason r = ''No strong positive matches; showing as lower-scoring suggestion''"
    by (simp_all add: scored_all_empty fallback_reason_def)
next
  have "\<forall>r \<in> set (map (scored prefs) dishes). score r = 0"
    using assms(1) by (simp add: scored_all_empty)
  then show e: "match_dishes dishes prefs top_n =
      slice_to top_n (sort_reverse RecommendationOut.name (map (scored prefs) dishes))"
    unfolding match_dishes_unfold by (simp only: sort_reverse_equal_scores)
  obtain m where "slice_to top_n (sort_reverse RecommendationOut.name (map (scored prefs) dishes))
      = take m (sort_reverse RecommendationOut.name (map (scored prefs) dishes))"
    using slice_to_take by blast
  then show "sorted_wrt (\<lambda>a b. RecommendationOut.name b \<le> RecommendationOut.name a)
           (match_dishes dishes prefs top_n)"
    unfolding e by (simp add: sort_reverse_descending sorted_wrt_take)
next
  assume "0 < top_n"
  with assms(2) show "match_dishes dishes prefs top_n \<noteq> []"
    by (rule match_dishes_nonempty)
qed

theorem match_dishes_all_empty_witness:
  "all_empty empty_request \<and> sample_catalog \<noteq> [] \<and>
   map RecommendationOut.name (match_dishes sample_catalog empty_request 3)
     = [''Pinakbet'', ''Dinengdeng'', ''Bagnet''] \<and>
   map score (match_dishes sample_catalog empty_request 3) = [0, 0, 0] \<and>
   sorted_wrt (\<lambda>a b. RecommendationOut.name b \<le> RecommendationOut.name a)
     (match_dishes sample_catalog empty_request 3)"
proof -
  have a: "all_empty empty_request" by code_simp
  have n: "sample_catalog \<noteq> []" by (simp add: sample_catalog_def)
  have v: "map RecommendationOut.name (match_dishes sample_catalog empty_request 3)
     = [''Pinakbet'', ''Dinengdeng'', ''Bagnet'']" by code_simp
  have s: "map score (match_dishes sample_catalog empty_request 3) = [0, 0, 0]" by code_simp
  show ?thesis
    using a n v s match_dishes_all_empty [OF a n, of 3] by blast
qed

text \<open>
  The reason of the one candidate for Pinakbet under the empty request is not the
  fallback string followed by a full stop.
\<close>

theorem fallback_reason_counterexample:
  "all_empty empty_request \<and> [pinakbet] \<noteq> [] \<and>
   map reason (match_dishes [pinakbet] empty_request 3)
     \<noteq> [''No strong positive matches; showing as lower-scoring suggestion.'']"
  by code_simp

section \<open>Which field a fragment quotes\<close>

text \<open>Each rule leaves the reasons it receives in place and only appends to them.\<close>

lemma taste_rule_reasons: "prefix (snd t) (snd (taste_rule pt dt dish t))"
  by (cases t) (simp add: taste_rule_def)

lemma ingredient_rule_reasons: "prefix (snd t) (snd (ingredient_rule pi di t))"
  by (cases t) (simp add: ingredient_rule_def Let_def)

lemma restriction_rule_reasons: "prefix (snd t) (snd (restriction_rule toks di dt t))"
  by (cases t) (simp add: restriction_rule_filter)

lemma cooking_rule_reasons: "prefix (snd t) (snd (cooking_rule pc dc dish t))"
  by (cases t) (simp add: cooking_rule_def)

lemma occasion_rule_reasons: "prefix (snd t) (snd (occasion_rule po docc prefs t))"
  by (cases t) (simp add: occasion_rule_def)

lemma reason_scored:
  "reason (scored prefs dish) =
     (let reasons = snd (tally_dish prefs
            (normalize_token (or_empty (preferred_taste prefs)))
            (map normalize_token (ingredients_preference prefs))
            (normalize_token (or_empty (PreferenceIn.cooking_method prefs)))
            (normalize_token (or_empty (occasion prefs)))
            (map parse_restriction_token (filter (\<lambda>r. r \<noteq> []) (dietary_restrictions prefs)))
            dish)
      in join ''; '' (if reasons = [] then [fallback_reason] else reasons))"
  by (simp add: scored_def score_dish_def Let_def split: prod.split)

lemma occasion_fires_Some:
  assumes "occasion_fires prefs dish"
  shows "\<exists>oc. occasion prefs = Some oc"
proof (cases "occasion prefs")
  case None
  with assms show ?thesis
    by (simp add: occasion_fires_def or_empty_def normalize_token_Nil)
next
  case (Some oc)
  then show ?thesis by simp
qed

lemma occasion_fragment_last:
  assumes "occasion_fires prefs dish" and "occasion prefs = Some oc"
  shows "\<exists>rs. snd (tally_dish prefs
            (normalize_token (or_empty (preferred_taste prefs)))
            (map normalize_token (ingredients_preference prefs))
            (normalize_token (or_empty (PreferenceIn.cooking_method prefs)))
            (normalize_token (or_empty (occasion prefs)))
            (map parse_restriction_token (filter (\<lambda>r. r \<noteq> []) (dietary_restrictions prefs)))
            dish) = rs @ [''Suitable for: '' @ oc @ '' (+1)'']"
  using assms
  by (simp add: tally_dish_def Let_def occasion_rule_def occasion_fires_def format_optional_def
      split: prod.split)

lemma taste_fragment_first:
  assumes "taste_fires prefs dish"
  shows "\<exists>rs. snd (tally_dish prefs
            (normalize_token (or_empty (preferred_taste prefs)))
            (map normalize_token (ingredients_preference prefs))
            (normalize_token (or_empty (PreferenceIn.cooking_method prefs)))
            (normalize_token (or_empty (occasion prefs)))
            (map parse_restriction_token (filter (\<lambda>r. r \<noteq> []) (dietary_restrictions prefs)))
            dish) = (''Matches taste: '' @ Dish.taste dish @ '' (+3)'') # rs"
proof -
  let ?pt = "normalize_token (or_empty (preferred_taste prefs))"
  let ?t1 = "taste_rule ?pt (normalize_token (Dish.taste dish)) dish (0, [])"
  have 1: "snd ?t1 = [''Matches taste: '' @ Dish.taste dish @ '' (+3)'']"
    using assms by (auto simp: taste_rule_def taste_fires_def)
  have "prefix (snd ?t1) (snd (tally_dish prefs ?pt
            (map normalize_token (ingredients_preference prefs))
            (normalize_token (or_empty (PreferenceIn.cooking_method prefs)))
            (normalize_token (or_empty (occasion prefs)))
            (map parse_restriction_token (filter (\<lambda>r. r \<noteq> []) (dietary_restrictions prefs)))
            dish))"
    unfolding tally_dish_def Let_def
    by (meson ingredient_rule_reasons restriction_rule_reasons cooking_rule_reasons
        occasion_rule_reasons prefix_order.order_trans)
  then show ?thesis
    unfolding 1 by (auto simp: prefix_def)
qed

lemma cooking_fragment_member:
  assumes "cooking_fires prefs dish"
  shows "(''Cooking method matches: '' @ Dish.cooking_method dish @ '' (+2)'')
           \<in> set (snd (tally_dish prefs
            (normalize_token (or_empty (preferred_taste prefs)))
            (map normalize_token (ingredients_preference prefs))
            (normalize_token (or_empty (PreferenceIn.cooking_method prefs)))
            (normalize_token (or_empty (occasion prefs)))
            (map parse_restriction_token (filter (\<lambda>r. r \<noteq> []) (dietary_restrictions prefs)))
            dish))"
proof -
  have c: "(''Cooking method matches: '' @ Dish.cooking_method dish @ '' (+2)'')
      \<in> set (snd (cooking_rule (normalize_token (or_empty (PreferenceIn.cooking_method prefs)))
                  (normalize_token (Dish.cooking_method dish)) dish t))" for t
    using assms by (cases t) (auto simp: cooking_rule_def cooking_fires_def)
  show ?thesis
    unfolding tally_dish_def Let_def
    using c occasion_rule_reasons set_mono_prefix by blast
qed

text \<open>
  C10. For every dish and request for which the occasion rule fires (the normalized
  occasion of the request is non-empty and equals a normalized occasion of the dish), the
  request has an occasion string and the reason of the dish's candidate ends with the
  fragment \<^verbatim>\<open>Suitable for: <occasion> (+1)\<close> built from that string of the request as it
  was given, not from an entry of the dish. The taste and cooking-method fragments are
  built from the dish's own fields: when the taste rule fires the reason begins with
  \<^verbatim>\<open>Matches taste: <dish.taste> (+3)\<close>, and when the cooking-method rule fires it
  contains \<^verbatim>\<open>Cooking method matches: <dish.cooking_method> (+2)\<close>.
\<close>

theorem occasion_fragment_uses_request:
  assumes "occasion_fires prefs dish"
  shows "(\<exists>oc. occasion prefs = Some oc \<and>
            suffix (''Suitable for: '' @ oc @ '' (+1)'') (reason (scored prefs dish))) \<and>
         (taste_fires prefs dish \<longrightarrow>
            prefix (''Matches taste: '' @ Dish.taste dish @ '' (+3)'')
              (reason (scored prefs dish))) \<and>
         (cooking_fires prefs dish \<longrightarrow>
            sublist (''Cooking method matches: '' @ Dish.cooking_method dish @ '' (+2)'')
              (reason (scored prefs dish)))"
proof (intro conjI impI)
  from assms obtain oc where oc: "occasion prefs = Some oc"
    using occasion_fires_Some by blast
  with assms obtain rs where "snd (tally_dish prefs
            (normalize_token (or_empty (preferred_taste prefs)))
            (map normalize_token (ingredients_preference prefs))
            (normalize_token (or_empty (PreferenceIn.cooking_method prefs)))
            (normalize_token (or_empty (occasion prefs)))
            (map parse_restriction_token (filter (\<lambda>r. r \<noteq> []) (dietary_restrictions prefs)))
            dish) = rs @ [''Suitable for: '' @ oc @ '' (+1)'']"
    using occasion_fragment_last by blast
  then have "reason (scored prefs dish) = join ''; '' (rs @ [''Suitable for: '' @ oc @ '' (+1)''])"
    by (simp add: reason_scored)
  then have "suffix (''Suitable for: '' @ oc @ '' (+1)'') (reason (scored prefs dish))"
    by (simp only: join_snoc_suffix)
  with oc show "\<exists>oc. occasion prefs = Some oc \<and>
            suffix (''Suitable for: '' @ oc @ '' (+1)'') (reason (scored prefs dish))"
    by blast
next
  assume "taste_fires prefs dish"
  then obtain rs where "snd (tally_dish prefs
            (normalize_token (or_empty (preferred_taste prefs)))
            (map normalize_token (ingredients_preference prefs))
            (normalize_token (or_empty (PreferenceIn.cooking_method prefs)))
            (normalize_token (or_empty (occasion prefs)))
            (map parse_restriction_token (filter (\<lambda>r. r \<noteq> []) (dietary_restrictions prefs)))
            dish) = (''Matches taste: '' @ Dish.taste dish @ '' (+3)'') # rs"
    using taste_fragment_first by blast
  then have "reason (scored prefs dish)
      = join ''; '' ((''Matches taste: '' @ Dish.taste dish @ '' (+3)'') # rs)"
    by (simp add: reason_scored)
  then show "prefix (''Matches taste: '' @ Dish.taste dish @ '' (+3)'') (reason (scored prefs dish))"
    by (simp only: join_Cons_prefix)
next
  assume "cooking_fires prefs dish"
  then have m: "(''Cooking method matches: '' @ Dish.cooking_method dish @ '' (+2)'')
           \<in> set (snd (tally_dish prefs
            (normalize_token (or_empty (preferred_taste prefs)))
            (map normalize_token (ingredients_preference prefs))
            (normalize_token (or_empty (PreferenceIn.cooking_method prefs)))
            (normalize_token (or_empty (occasion prefs)))
            (map parse_restriction_token (filter (\<lambda>r. r \<noteq> []) (dietary_restrictions prefs)))
            dish))"
    by (rule cooking_fragment_member)
  then have "snd (tally_dish prefs
            (normalize_token (or_empty (preferred_taste prefs)))
            (map normalize_token (ingredients_preference prefs))
            (normalize_token (or_empty (PreferenceIn.cooking_method prefs)))
            (normalize_token (or_empty (occasion prefs)))
            (map parse_restriction_token (filter (\<lambda>r. r \<noteq> []) (dietary_restrictions prefs)))
            dish) \<noteq> []"
    by auto
  with m show "sublist (''Cooking method matches: '' @ Dish.cooking_method dish @ '' (+2)'')
              (reason (scored prefs dish))"
    by (simp add: reason_scored join_member_sublist)
qed

theorem occasion_fragment_uses_request_witness:
  "occasion_fires everyday_request pinakbet \<and>
   occasion everyday_request = Some ''Everyday!'' \<and>
   occasions pinakbet = [''everyday''] \<and>
   reason (scored everyday_request pinakbet) =
     ''Matches taste: bitter (+3); Cooking method matches: boiled (+2); Suitable for: Everyday! (+1)'' \<and>
   suffix ''Suitable for: Everyday! (+1)'' (reason (scored everyday_request pinakbet))"
proof -
  have f: "occasion_fires everyday_request pinakbet" by code_simp
  have o: "occasion everyday_request = Some ''Everyday!''" by (simp add: everyday_request_def)
  have d: "occasions pinakbet = [''everyday'']" by (simp add: pinakbet_def)
  have r: "reason (scored everyday_request pinakbet) =
     ''Matches taste: bitter (+3); Cooking method matches: boiled (+2); Suitable for: Everyday! (+1)''"
    by code_simp
  from occasion_fragment_uses_request [OF f] o
  have "suffix (''Suitable for: '' @ ''Everyday!'' @ '' (+1)'')
          (reason (scored everyday_request pinakbet))"
    by auto
  then have "suffix ''Suitable for: Everyday! (+1)'' (reason (scored everyday_request pinakbet))"
    by simp
  with f o d r show ?thesis by blast
qed

end
